theory Spec2Isabelle
  imports Complex_Main "HOL-Library.Word"
begin

unbundle bit_operations_syntax

section \<open>The notebook as data\<close>

text \<open>
  The repository is one Jupyter notebook, \<^verbatim>\<open>z3-strategies.ipynb\<close>, and a readme. The
  notebook is a sequence of cells; a markdown cell is prose, a code cell holds the lines of
  Python that are executed and the text that executing them printed (stored in the file
  under \<^verbatim>\<open>outputs\<close>). A code cell is modelled as it is stored: the list of its source
  lines and the list of lines of its recorded standard output, both without the line
  terminators. Cells are numbered by their position in the file's \<^verbatim>\<open>cells\<close> array,
  starting from 0; the odd gaps are the markdown cells.
\<close>

record code_cell =
  source :: "string list"
  stdout :: "string list"

text \<open>Code cell 3 of the notebook (source from line 39 of the file).\<close>
definition cell3 :: code_cell where
  "cell3 = \<lparr>source = [
      ''from z3 import *''],
    stdout = []\<rparr>"

text \<open>Code cell 5 of the notebook (source from line 74 of the file).\<close>
definition cell5 :: code_cell where
  "cell5 = \<lparr>source = [
      ''x, y = Reals('x y')'',
      ''g = Goal()'',
      ''g.add(x > 0, y > 0, x == y + 2)'',
      ''print(g)'',
      '''',
      ''t1 = Tactic('simplify')'',
      ''t2 = Tactic('solve-eqs')'',
      ''t = Then(t1, t2)'',
      ''print(t(g))''],
    stdout = [
      ''[x > 0, y > 0, x == y + 2]'',
      ''[[Not(x <= 0), Not(x <= 2)]]'']\<rparr>"

text \<open>Code cell 7 of the notebook (source from line 113 of the file).\<close>
definition cell7 :: code_cell where
  "cell7 = \<lparr>source = [
      ''x, y = Reals('x y')'',
      ''g = Goal()'',
      ''g.add(Or(x < 0, x > 0), x == y + 1, y < 0)'',
      '''',
      ''t = Tactic('split-clause')'',
      ''r = t(g)'',
      ''for g in r:'',
      ''    print(g)''],
    stdout = [
      ''[x < 0, x == y + 1, y < 0]'',
      ''[x > 0, x == y + 1, y < 0]'']\<rparr>"

text \<open>Code cell 9 of the notebook (source from line 174 of the file).\<close>
definition cell9 :: code_cell where
  "cell9 = \<lparr>source = [
      ''x, y, z = Reals('x y z')'',
      ''g = Goal()'',
      ''g.add(Or(x == 0, x == 1),'',
      ''      Or(y == 0, y == 1),'',
      ''      Or(z == 0, z == 1),'',
      ''      x + y + z > 2)'',
      '''',
      ''# Split all clauses\"'',
      ''split_all = Repeat(OrElse(Tactic('split-clause'),'',
      ''                          Tactic('skip')))'',
      ''print(split_all(g))'',
      '''',
      ''split_at_most_2 = Repeat(OrElse(Tactic('split-clause'),'',
      ''                                Tactic('skip')),'',
      ''                         1)'',
      ''print(split_at_most_2(g))'',
      '''',
      ''# Split all clauses and solve equations'',
      ''split_solve = Then(Repeat(OrElse(Tactic('split-clause'),'',
      ''                                 Tactic('skip'))),'',
      ''                   Tactic('solve-eqs'))'',
      '''',
      ''print(split_solve(g))''],
    stdout = [
      ''[[x == 0, y == 0, z == 0, x + y + z > 2],'',
      '' [x == 0, y == 0, z == 1, x + y + z > 2],'',
      '' [x == 0, y == 1, z == 0, x + y + z > 2],'',
      '' [x == 0, y == 1, z == 1, x + y + z > 2],'',
      '' [x == 1, y == 0, z == 0, x + y + z > 2],'',
      '' [x == 1, y == 0, z == 1, x + y + z > 2],'',
      '' [x == 1, y == 1, z == 0, x + y + z > 2],'',
      '' [x == 1, y == 1, z == 1, x + y + z > 2]]'',
      ''[[x == 0, y == 0, Or(z == 0, z == 1), x + y + z > 2],'',
      '' [x == 0, y == 1, Or(z == 0, z == 1), x + y + z > 2],'',
      '' [x == 1, y == 0, Or(z == 0, z == 1), x + y + z > 2],'',
      '' [x == 1, y == 1, Or(z == 0, z == 1), x + y + z > 2]]'',
      ''[[]]'']\<rparr>"

text \<open>Code cell 11 of the notebook (source from line 233 of the file).\<close>
definition cell11 :: code_cell where
  "cell11 = \<lparr>source = [
      ''x, y, z = Reals('x y z')'',
      ''g = Goal()'',
      ''g.add(Or(x == 0, x == 1),'',
      ''      Or(y == 0, y == 1),'',
      ''      Or(z == 0, z == 1),'',
      ''      x + y + z > 2)'',
      '''',
      ''# Split all clauses\"'',
      ''split_all = Repeat(OrElse(Tactic('split-clause'),'',
      ''                          Tactic('skip')))'',
      ''for s in split_all(g):'',
      ''    print(s)''],
    stdout = [
      ''[x == 0, y == 0, z == 0, x + y + z > 2]'',
      ''[x == 0, y == 0, z == 1, x + y + z > 2]'',
      ''[x == 0, y == 1, z == 0, x + y + z > 2]'',
      ''[x == 0, y == 1, z == 1, x + y + z > 2]'',
      ''[x == 1, y == 0, z == 0, x + y + z > 2]'',
      ''[x == 1, y == 0, z == 1, x + y + z > 2]'',
      ''[x == 1, y == 1, z == 0, x + y + z > 2]'',
      ''[x == 1, y == 1, z == 1, x + y + z > 2]'']\<rparr>"

text \<open>Code cell 13 of the notebook (source from line 272 of the file).\<close>
definition cell13 :: code_cell where
  "cell13 = \<lparr>source = [
      ''bv_solver = Then('simplify','',
      ''                 'solve-eqs','',
      ''                 'bit-blast','',
      ''                 'sat').solver()'',
      '''',
      ''x, y = BitVecs('x y', 16)'',
      ''solve_using(bv_solver, x | y == 13, x > y)''],
    stdout = [
      ''[y = 0, x = 13]'']\<rparr>"

text \<open>Code cell 15 of the notebook (source from line 311 of the file).\<close>
definition cell15 :: code_cell where
  "cell15 = \<lparr>source = [
      ''bv_solver = Then(With('simplify', mul2concat=True),'',
      ''                 'solve-eqs','',
      ''                 'bit-blast','',
      ''                 'aig','',
      ''                 'sat').solver()'',
      ''x, y = BitVecs('x y', 16)'',
      ''bv_solver.add(x * 32 + y == 13, x & y < 10, y > -100)'',
      ''print(bv_solver.check())'',
      ''m = bv_solver.model()'',
      ''print(m)'',
      ''print(x * 32 + y, \"==\", m.evaluate(x * 32 + y))'',
      ''print(x & y, \"==\", m.evaluate(x & y))''],
    stdout = [
      ''sat'',
      ''[y = 2061, x = 1984]'',
      ''x*32 + y == 13'',
      ''x & y == 0'']\<rparr>"

text \<open>Code cell 17 of the notebook (source from line 351 of the file).\<close>
definition cell17 :: code_cell where
  "cell17 = \<lparr>source = [
      ''x, y = Ints('x y')'',
      ''s = Tactic('smt').solver()'',
      ''s.add(x > y + 1)'',
      ''print(s.check())'',
      ''print(s.model())''],
    stdout = [
      ''sat'',
      ''[x = 0, y = -2]'']\<rparr>"

text \<open>Code cell 19 of the notebook (source from line 384 of the file).\<close>
definition cell19 :: code_cell where
  "cell19 = \<lparr>source = [
      ''s = Then(With('simplify', arith_lhs=True, som=True),'',
      ''         'normalize-bounds', 'lia2pb', 'pb2bv','',
      ''         'bit-blast', 'sat').solver()'',
      ''x, y, z = Ints('x y z')'',
      ''solve_using(s,'',
      ''            x > 0, x < 10,'',
      ''            y > 0, y < 10,'',
      ''            z > 0, z < 10,'',
      ''            3 * y + 2 * x == z)'',
      ''# It fails on the next example (it is unbounded)'',
      ''s.reset()'',
      ''solve_using(s, 3 * y + 2 * x == z)''],
    stdout = [
      ''[x = 3, z = 9, y = 1]'',
      ''failed to solve'']\<rparr>"

text \<open>Code cell 21 of the notebook (source from line 426 of the file).\<close>
definition cell21 :: code_cell where
  "cell21 = \<lparr>source = [
      ''t = Then('simplify','',
      ''         'normalize-bounds','',
      ''         'solve-eqs')'',
      '''',
      ''x, y, z = Ints('x y z')'',
      ''g = Goal()'',
      ''g.add(x > 10, y == x + 3, z > y)'',
      '''',
      ''r = t(g)'',
      ''# r contains only one subgoal'',
      ''print(r)'',
      '''',
      ''s = Solver()'',
      ''s.add(r[0])'',
      ''print(s.check())'',
      ''# Model for the subgoal'',
      ''print(s.model())'',
      ''# Model for the original goal'',
      '''',
      ''# av: fix'',
      ''# print(r.convert_model(s.model()))'',
      ''print(r[0].convert_model(s.model()))''],
    stdout = [
      ''[[Not(y <= 13), Not(z <= y)]]'',
      ''sat'',
      ''[y = 14, z = 15]'',
      ''[z = 15, y = 14, x = 11]'']\<rparr>"

text \<open>Code cell 23 of the notebook (source from line 484 of the file).\<close>
definition cell23 :: code_cell where
  "cell23 = \<lparr>source = [
      ''x, y, z = Reals('x y z')'',
      ''g = Goal()'',
      ''g.add(x + y + z > 0)'',
      '''',
      ''p = Probe('num-consts')'',
      ''print(\"num-consts:\", p(g))'',
      '''',
      ''t = FailIf(p > 2)'',
      ''try:'',
      ''    t(g)'',
      ''except Z3Exception:'',
      ''    print(\"tactic failed\")'',
      '''',
      ''print(\"trying again...\")'',
      ''g = Goal()'',
      ''g.add(x + y > 0)'',
      ''print(t(g))''],
    stdout = [
      ''num-consts: 3.0'',
      ''tactic failed'',
      ''trying again...'',
      ''[[x + y > 0]]'']\<rparr>"

text \<open>Code cell 25 of the notebook (source from line 537 of the file).\<close>
definition cell25 :: code_cell where
  "cell25 = \<lparr>source = [
      ''x, y, z = Reals('x y z')'',
      ''g = Goal()'',
      ''g.add(x ** 2 - y ** 2 >= 0)'',
      '''',
      ''p = Probe('num-consts')'',
      ''t = If(p > 2, 'simplify', 'factor')'',
      '''',
      ''print(t(g))'',
      '''',
      ''g = Goal()'',
      ''g.add(x + x + y + z >= 0, x ** 2 - y ** 2 >= 0)'',
      '''',
      ''print(t(g))''],
    stdout = [
      ''[[(y + -1*x)*(y + x) <= 0]]'',
      ''[[2*x + y + z >= 0, x**2 + -1*y**2 >= 0]]'']\<rparr>"

text \<open>Code cell 26 of the notebook (empty).\<close>
definition cell26 :: code_cell where
  "cell26 = \<lparr>source = [],
    stdout = []\<rparr>"

definition notebook :: "code_cell list" where
  "notebook = [cell3, cell5, cell7, cell9, cell11, cell13, cell15, cell17, cell19, cell21, cell23, cell25, cell26]"

section \<open>Reading the Python of a code cell\<close>

text \<open>
  The characters of a Python identifier (the notebook is ASCII).
\<close>

definition is_ident_char :: "char \<Rightarrow> bool" where
  "is_ident_char c =
     (let n = (of_char c :: nat) in
      (97 \<le> n \<and> n \<le> 122) \<or> (65 \<le> n \<and> n \<le> 90) \<or> (48 \<le> n \<and> n \<le> 57) \<or> n = 95)"

text \<open>
  The names a line of Python calls: every identifier that stands directly before an
  opening parenthesis. The scan follows Python's lexical structure as far as the
  notebook uses it: a \<^verbatim>\<open>#\<close> outside a string literal starts a comment that runs to the
  end of the line, and a string literal runs from its quote to the next occurrence of the
  same quote (the notebook has no escapes and no literal that spans lines). The first
  argument is the quote of the string literal being read, if any; the second is the
  identifier read so far, reversed.
\<close>

fun called_names :: "char option \<Rightarrow> string \<Rightarrow> string \<Rightarrow> string list" where
  "called_names q cur [] = []"
| "called_names (Some d) cur (c # cs) =
     (if c = d then called_names None [] cs else called_names (Some d) [] cs)"
| "called_names None cur (c # cs) =
     (if c = CHR ''#'' then []
      else if c = CHR 0x27 \<or> c = CHR 0x22 then called_names (Some c) [] cs
      else if c = CHR ''('' then
        (if cur = [] then called_names None [] cs else rev cur # called_names None [] cs)
      else if is_ident_char c then called_names None (c # cur) cs
      else called_names None [] cs)"

definition cell_calls :: "code_cell \<Rightarrow> string list" where
  "cell_calls c = concat (map (called_names None []) (source c))"

text \<open>A code cell invokes an operation when one of its lines calls it by name.\<close>

definition invokes :: "string \<Rightarrow> code_cell \<Rightarrow> bool" where
  "invokes f c = (f \<in> set (cell_calls c))"

text \<open>The operations the specification lists as shown by the notebook.\<close>

definition shown_operations :: "string list" where
  "shown_operations =
     [''Then'', ''OrElse'', ''Repeat'', ''TryFor'', ''With'', ''FailIf'', ''If'', ''When'',
      ''Probe'', ''solver'']"

definition invoked_operations :: "string list" where
  "invoked_operations =
     [''Then'', ''OrElse'', ''Repeat'', ''With'', ''FailIf'', ''If'', ''Probe'', ''solver'']"

text \<open>
  All the words of a line of Python outside comments and string literals: maximal runs of
  identifier characters (keywords, names and numerals), read with the same scan.
\<close>

definition flush :: "string \<Rightarrow> string list" where
  "flush cur = (if cur = [] then [] else [rev cur])"

fun line_words :: "char option \<Rightarrow> string \<Rightarrow> string \<Rightarrow> string list" where
  "line_words q cur [] = flush cur"
| "line_words (Some d) cur (c # cs) =
     (if c = d then line_words None [] cs else line_words (Some d) [] cs)"
| "line_words None cur (c # cs) =
     (if c = CHR ''#'' then flush cur
      else if is_ident_char c then line_words None (c # cur) cs
      else if c = CHR 0x27 \<or> c = CHR 0x22 then flush cur @ line_words (Some c) [] cs
      else flush cur @ line_words None [] cs)"

definition cell_words :: "code_cell \<Rightarrow> string list" where
  "cell_words c = concat (map (line_words None []) (source c))"

text \<open>
  The reserved words with which Python code defines a function or a class of its own.
\<close>

definition defining_words :: "string list" where
  "defining_words = [''def'', ''class'', ''lambda'']"

definition defines_own :: "code_cell \<Rightarrow> bool" where
  "defines_own c = list_ex (\<lambda>w. w \<in> set defining_words) (cell_words c)"

text \<open>The import statements of a cell: the lines that start with \<^verbatim>\<open>import\<close> or \<^verbatim>\<open>from\<close>.\<close>

definition first_word :: "string \<Rightarrow> string" where
  "first_word l = takeWhile is_ident_char (dropWhile (\<lambda>c. c = CHR '' '') l)"

definition imports_of :: "code_cell \<Rightarrow> string list" where
  "imports_of c = filter (\<lambda>l. first_word l \<in> {''import'', ''from''}) (source c)"

text \<open>
  A line \<^verbatim>\<open>name = f...\<close> binds the name on its left; the second component is the
  identifier its right-hand side starts with (for \<^verbatim>\<open>t = Then(t1, t2)\<close>, the pair of \<^verbatim>\<open>t\<close>
  and \<^verbatim>\<open>Then\<close>). Lines that unpack a tuple (\<^verbatim>\<open>x, y = Reals('x y')\<close>) are not of this form.
\<close>

definition binding :: "string \<Rightarrow> (string \<times> string) option" where
  "binding l =
     (let n = takeWhile is_ident_char l; rest = drop (length n) l
      in if n \<noteq> [] \<and> take 3 rest = '' = ''
         then Some (n, takeWhile is_ident_char (drop 3 rest)) else None)"

definition cell_bindings :: "code_cell \<Rightarrow> (string \<times> string) list" where
  "cell_bindings c = List.map_filter binding (source c)"

text \<open>
  The functions, classes and methods of the solver library that the notebook calls
  (all of them come with \<^verbatim>\<open>from z3 import *\<close> or are methods of the objects it gives).
\<close>

definition library_names :: "string list" where
  "library_names =
     [''Reals'', ''Ints'', ''BitVecs'', ''Or'', ''Goal'', ''Solver'', ''Tactic'', ''Probe'',
      ''Then'', ''OrElse'', ''Repeat'', ''With'', ''FailIf'', ''If'', ''solve_using'',
      ''add'', ''solver'', ''check'', ''model'', ''evaluate'', ''reset'', ''convert_model'']"

text \<open>
  The names that the notebook binds to a tactic or a probe and then applies to a goal, and
  the library operations whose results are tactics and probes.
\<close>

definition applied_names :: "string list" where
  "applied_names = [''t'', ''p'', ''split_all'', ''split_at_most_2'', ''split_solve'']"

definition tactic_makers :: "string list" where
  "tactic_makers = [''Tactic'', ''Then'', ''Repeat'', ''FailIf'', ''If'', ''Probe'']"

definition allowed_calls :: "string list" where
  "allowed_calls = library_names @ applied_names @ [''print'']"

text \<open>
  Everything else a cell may mention: the words of the Python statements it uses and the
  built-in \<^verbatim>\<open>print\<close>, the library's module and exception, the keyword arguments passed
  to \<^verbatim>\<open>With\<close>, the variables of the notebook, and numerals.
\<close>

definition python_words :: "string list" where
  "python_words = [''from'', ''import'', ''for'', ''in'', ''try'', ''except'', ''print'', ''True'']"

definition variable_names :: "string list" where
  "variable_names =
     [''x'', ''y'', ''z'', ''g'', ''t'', ''t1'', ''t2'', ''r'', ''s'', ''m'', ''p'', ''bv_solver'',
      ''split_all'', ''split_at_most_2'', ''split_solve'']"

definition vocabulary :: "string list" where
  "vocabulary =
     python_words @ [''z3'', ''Z3Exception''] @ library_names
     @ [''mul2concat'', ''arith_lhs'', ''som''] @ variable_names"

definition is_numeral :: "string \<Rightarrow> bool" where
  "is_numeral w = list_all (\<lambda>c. c \<in> set ''0123456789'') w"

definition known_word :: "string \<Rightarrow> bool" where
  "known_word w = (is_numeral w \<or> w \<in> set vocabulary)"


section \<open>Expressions, formulas and goals\<close>

text \<open>
  The cells build arithmetic expressions over declared constants (\<^verbatim>\<open>Reals('x y')\<close>,
  \<^verbatim>\<open>Ints('x y z')\<close>) with Python's operators, compare them, and add the comparisons to a
  goal or a solver. The terms are modelled as the syntax trees the operators build; a goal
  is the list of formulas added to it, in order.
\<close>

datatype aexp =
    Var string
  | Val int
  | Add aexp aexp
  | Sub aexp aexp
  | Mul aexp aexp
  | Pow aexp nat

datatype form =
    Gt aexp aexp
  | Ge aexp aexp
  | Lt aexp aexp
  | Le aexp aexp
  | Eq aexp aexp
  | Not_f form

type_synonym goal = "form list"




text \<open>
  A model is printed by the library as a list of bindings \<^verbatim>\<open>[y = 14, z = 15]\<close>; it is kept
  as that list. The assignment it denotes looks a constant up in the list (a constant the
  list does not bind reads as 0; the theorems below also show that every constant of the
  goal in question is bound).
\<close>

type_synonym 'a model = "(string \<times> 'a) list"



text \<open>The constants that occur in an expression, a formula, a goal, each listed once.\<close>

primrec consts_aexp :: "aexp \<Rightarrow> string list" where
  "consts_aexp (Var v) = [v]"
| "consts_aexp (Val n) = []"
| "consts_aexp (Add a b) = consts_aexp a @ consts_aexp b"
| "consts_aexp (Sub a b) = consts_aexp a @ consts_aexp b"
| "consts_aexp (Mul a b) = consts_aexp a @ consts_aexp b"
| "consts_aexp (Pow a n) = consts_aexp a"

primrec consts_form :: "form \<Rightarrow> string list" where
  "consts_form (Gt a b) = consts_aexp a @ consts_aexp b"
| "consts_form (Ge a b) = consts_aexp a @ consts_aexp b"
| "consts_form (Lt a b) = consts_aexp a @ consts_aexp b"
| "consts_form (Le a b) = consts_aexp a @ consts_aexp b"
| "consts_form (Eq a b) = consts_aexp a @ consts_aexp b"
| "consts_form (Not_f f) = consts_form f"

definition consts_goal :: "goal \<Rightarrow> string list" where
  "consts_goal g = remdups (concat (map consts_form g))"

subsection \<open>Terms as text\<close>

text \<open>
  The cells write terms in Python's notation (\<^verbatim>\<open>3 * y + 2 * x == z\<close>,
  \<^verbatim>\<open>x ** 2 - y ** 2 >= 0\<close>), and the recorded outputs show terms, goals, results and
  models as the library prints them (\<^verbatim>\<open>2*x + y + z >= 0\<close>, \<^verbatim>\<open>x**2 + -1*y**2 >= 0\<close>,
  \<^verbatim>\<open>Not(x <= 0)\<close>, lists in square brackets). The two notations differ in the spaces
  around \<^verbatim>\<open>*\<close> and \<^verbatim>\<open>**\<close>. The printer below covers the part of both that the notebook
  uses; it ties the terms used in the theorems to the text stored in the notebook.
\<close>

datatype style = Source | Printed

definition op_text :: "style \<Rightarrow> string \<Rightarrow> string" where
  "op_text n s = (case n of Source \<Rightarrow> '' '' @ s @ '' '' | Printed \<Rightarrow> s)"

definition digit :: "nat \<Rightarrow> char" where
  "digit n = ''0123456789'' ! (n mod 10)"

fun show_nat :: "nat \<Rightarrow> string" where
  "show_nat n = (if n < 10 then [digit n] else show_nat (n div 10) @ [digit n])"

definition show_int :: "int \<Rightarrow> string" where
  "show_int i = (if i < 0 then ''-'' @ show_nat (nat (- i)) else show_nat (nat i))"

definition paren :: "bool \<Rightarrow> string \<Rightarrow> string" where
  "paren b s = (if b then ''('' @ s @ '')'' else s)"

text \<open>
  The second argument is the binding strength the context asks for: an operand that
  binds less tightly is put in parentheses.
\<close>

primrec show_aexp :: "style \<Rightarrow> nat \<Rightarrow> aexp \<Rightarrow> string" where
  "show_aexp n p (Var v) = v"
| "show_aexp n p (Val i) = show_int i"
| "show_aexp n p (Add a b) = paren (1 < p) (show_aexp n 1 a @ '' + '' @ show_aexp n 2 b)"
| "show_aexp n p (Sub a b) = paren (1 < p) (show_aexp n 1 a @ '' - '' @ show_aexp n 2 b)"
| "show_aexp n p (Mul a b) =
     paren (2 < p) (show_aexp n 2 a @ op_text n ''*'' @ show_aexp n 3 b)"
| "show_aexp n p (Pow a k) = paren (3 < p) (show_aexp n 4 a @ op_text n ''**'' @ show_nat k)"

primrec show_form :: "style \<Rightarrow> form \<Rightarrow> string" where
  "show_form n (Gt a b) = show_aexp n 0 a @ '' > '' @ show_aexp n 0 b"
| "show_form n (Ge a b) = show_aexp n 0 a @ '' >= '' @ show_aexp n 0 b"
| "show_form n (Lt a b) = show_aexp n 0 a @ '' < '' @ show_aexp n 0 b"
| "show_form n (Le a b) = show_aexp n 0 a @ '' <= '' @ show_aexp n 0 b"
| "show_form n (Eq a b) = show_aexp n 0 a @ '' == '' @ show_aexp n 0 b"
| "show_form n (Not_f f) = ''Not('' @ show_form n f @ '')''"

fun commas :: "string list \<Rightarrow> string" where
  "commas [] = []"
| "commas [s] = s"
| "commas (s # t # ss) = s @ '', '' @ commas (t # ss)"

definition show_list :: "string list \<Rightarrow> string" where
  "show_list ss = ''['' @ commas ss @ '']''"

definition show_goal :: "goal \<Rightarrow> string" where
  "show_goal g = show_list (map (show_form Printed) g)"

definition show_result :: "goal list \<Rightarrow> string" where
  "show_result gs = show_list (map show_goal gs)"

definition show_model :: "int model \<Rightarrow> string" where
  "show_model m = show_list (map (\<lambda>(v, i). v @ '' = '' @ show_int i) m)"

text \<open>The arguments of a call as the cell writes them: \<^verbatim>\<open>g.add(x > 0, y > 0)\<close>.\<close>

definition call_text :: "string \<Rightarrow> string list \<Rightarrow> string" where
  "call_text f args = f @ ''('' @ commas args @ '')''"


subsection \<open>Bit-vector terms\<close>

text \<open>
  Cells 13 and 15 declare \<^verbatim>\<open>x, y = BitVecs('x y', 16)\<close>: terms over 16-bit vectors. The
  operators \<^verbatim>\<open>+\<close> and \<^verbatim>\<open>*\<close> wrap around modulo \<open>2 ^ 16\<close>, \<^verbatim>\<open>|\<close> and \<^verbatim>\<open>&\<close> work
  bitwise, a Python integer stands for the vector congruent to it, and the comparisons
  \<^verbatim>\<open><\<close> and \<^verbatim>\<open>>\<close> of the Python interface read both sides as two's complement numbers.
\<close>

datatype bvexp =
    BVar string
  | BVal int
  | BOr bvexp bvexp
  | BAnd bvexp bvexp
  | BAdd bvexp bvexp
  | BMul bvexp bvexp

datatype bvform =
    BEq bvexp bvexp
  | BGt bvexp bvexp
  | BLt bvexp bvexp





text \<open>
  Bit-vector terms in both notations (\<^verbatim>\<open>x * 32 + y\<close> in a cell, \<^verbatim>\<open>x*32 + y\<close> in an
  output), and a value as the library prints it: the decimal numeral of its unsigned
  reading.
\<close>

primrec show_bvexp :: "style \<Rightarrow> nat \<Rightarrow> bvexp \<Rightarrow> string" where
  "show_bvexp n p (BVar v) = v"
| "show_bvexp n p (BVal i) = show_int i"
| "show_bvexp n p (BOr a b) = paren (0 < p) (show_bvexp n 0 a @ '' | '' @ show_bvexp n 1 b)"
| "show_bvexp n p (BAnd a b) = paren (0 < p) (show_bvexp n 0 a @ '' & '' @ show_bvexp n 1 b)"
| "show_bvexp n p (BAdd a b) = paren (1 < p) (show_bvexp n 1 a @ '' + '' @ show_bvexp n 2 b)"
| "show_bvexp n p (BMul a b) =
     paren (2 < p) (show_bvexp n 2 a @ op_text n ''*'' @ show_bvexp n 3 b)"

primrec show_bvform :: "style \<Rightarrow> bvform \<Rightarrow> string" where
  "show_bvform n (BEq a b) = show_bvexp n 0 a @ '' == '' @ show_bvexp n 0 b"
| "show_bvform n (BGt a b) = show_bvexp n 0 a @ '' > '' @ show_bvexp n 0 b"
| "show_bvform n (BLt a b) = show_bvexp n 0 a @ '' < '' @ show_bvexp n 0 b"

definition show_bv :: "16 word \<Rightarrow> string" where
  "show_bv w = show_nat (unat w)"

definition show_bvmodel :: "16 word model \<Rightarrow> string" where
  "show_bvmodel m = show_list (map (\<lambda>(v, w). v @ '' = '' @ show_bv w) m)"

text \<open>Python's \<^verbatim>\<open>print(a, b, c)\<close> writes its arguments separated by one space.\<close>

fun spaced :: "string list \<Rightarrow> string" where
  "spaced [] = []"
| "spaced [s] = s"
| "spaced (s # t # ss) = s @ '' '' @ spaced (t # ss)"

section \<open>Tactics, tacticals and probes\<close>

text \<open>
  The solver library is not part of the repository; the notebook calls it. What the
  notebook itself says about the operations it demonstrates is modelled here, for the
  operations the theorems below are about.

  A tactic processes a goal: it produces a sequence of subgoals, or it fails, which the
  Python interface reports by raising \<^verbatim>\<open>Z3Exception\<close> (cell 23 catches it).
\<close>

datatype z3_error = Z3Exception

type_synonym z3_tactic = "goal \<Rightarrow> z3_error + goal list"

text \<open>
  Probes are evaluated over goals and give a number (cell 23 prints \<^verbatim>\<open>p(g)\<close> as the float
  \<^verbatim>\<open>3.0\<close>); relational operators build conditions from them (\<^verbatim>\<open>p > 2\<close>).
\<close>

type_synonym probe = "goal \<Rightarrow> real"

type_synonym cond = "goal \<Rightarrow> bool"

text \<open>
  Modelled from the spec: the probe \<^verbatim>\<open>num-consts\<close> is a built-in measurement of the
  library, which the repository does not contain. The specification calls a probe a
  numeric measurement function evaluated over a goal and speaks of the goals of cells 23
  and 25 as having two or three constants; the model counts the distinct constants that
  occur in the goal (numerals are not constants), which is the value cell 23 prints for
  the goal \<^verbatim>\<open>x + y + z > 0\<close>.
\<close>

definition num_consts :: "goal \<Rightarrow> nat" where
  "num_consts g = length (consts_goal g)"

definition Probe_num_consts :: probe where
  "Probe_num_consts g = real (num_consts g)"

definition probe_gt :: "probe \<Rightarrow> real \<Rightarrow> cond" where
  "probe_gt p c g = (p g > c)"

definition Not_c :: "cond \<Rightarrow> cond" where
  "Not_c c g = (\<not> c g)"

text \<open>
  Modelled from the spec: \<^verbatim>\<open>FailIf\<close> is an operation of the library, which the repository
  does not contain. The specification describes its demonstration as an exception raised
  when the tactic's probe-based precondition fails. The tactic fails on the goals on which
  its argument evaluates to true and returns the input goal as the only subgoal otherwise:
  this is what cell 23 records (\<^verbatim>\<open>FailIf(p > 2)\<close> raises on a goal with 3 constants and
  returns \<^verbatim>\<open>[[x + y > 0]]\<close> on a goal with 2), and what the shorthand for \<^verbatim>\<open>If\<close> in the
  prose before cell 25 needs to give the outputs of cell 25. (The sentence before cell 23,
  that \<^verbatim>\<open>FailIf(cond)\<close> fails if the goal does not satisfy \<^verbatim>\<open>cond\<close>, has the polarity
  the other way round and is contradicted by both recorded outputs.)
\<close>

definition FailIf :: "cond \<Rightarrow> z3_tactic" where
  "FailIf c g = (if c g then Inl Z3Exception else Inr [g])"

text \<open>
  Modelled from the spec: the tacticals are operations of the library, described by the
  specification as sequencing and fallback and by the notebook as follows.
  \<^verbatim>\<open>Then(t, s)\<close> applies \<^verbatim>\<open>t\<close> to the input goal and \<^verbatim>\<open>s\<close> to every subgoal produced by
  \<^verbatim>\<open>t\<close>. \<^verbatim>\<open>OrElse(t, s)\<close> first applies \<^verbatim>\<open>t\<close> to the given goal; if it fails, it
  returns the result of \<^verbatim>\<open>s\<close> applied to the given goal. The tactic \<^verbatim>\<open>skip\<close> just returns
  the input goal. \<^verbatim>\<open>If(p, t1, t2)\<close> is a shorthand for
  \<^verbatim>\<open>OrElse(Then(FailIf(Not(p)), t1), t2)\<close>, and \<^verbatim>\<open>When(p, t)\<close> for \<^verbatim>\<open>If(p, t, 'skip')\<close>.
\<close>

fun apply_each :: "z3_tactic \<Rightarrow> goal list \<Rightarrow> z3_error + goal list" where
  "apply_each s [] = Inr []"
| "apply_each s (g # gs) =
     (case s g of
        Inl e \<Rightarrow> Inl e
      | Inr r \<Rightarrow> (case apply_each s gs of Inl e \<Rightarrow> Inl e | Inr rs \<Rightarrow> Inr (r @ rs)))"

definition Then :: "z3_tactic \<Rightarrow> z3_tactic \<Rightarrow> z3_tactic" where
  "Then t s g = (case t g of Inl e \<Rightarrow> Inl e | Inr gs \<Rightarrow> apply_each s gs)"

definition OrElse :: "z3_tactic \<Rightarrow> z3_tactic \<Rightarrow> z3_tactic" where
  "OrElse t s g = (case t g of Inl e \<Rightarrow> s g | Inr r \<Rightarrow> Inr r)"

definition skip :: z3_tactic where
  "skip g = Inr [g]"

definition If_t :: "cond \<Rightarrow> z3_tactic \<Rightarrow> z3_tactic \<Rightarrow> z3_tactic" where
  "If_t p t1 t2 = OrElse (Then (FailIf (Not_c p)) t1) t2"

definition When :: "cond \<Rightarrow> z3_tactic \<Rightarrow> z3_tactic" where
  "When p t = If_t p t skip"

text \<open>
  Python prints a probe's value, a float, with its fractional part; a count is integral.
\<close>

definition show_float :: "real \<Rightarrow> string" where
  "show_float r = show_int \<lfloor>r\<rfloor> @ ''.0''"


section \<open>The cells\<close>

subsection \<open>Cell 5: a first tactic application\<close>

text \<open>
  \<^verbatim>\<open>g.add(x > 0, y > 0, x == y + 2)\<close> over \<^verbatim>\<open>Reals('x y')\<close>, and the result that
  \<^verbatim>\<open>print(t(g))\<close> recorded for \<^verbatim>\<open>t = Then(t1, t2)\<close>, the tactics \<^verbatim>\<open>simplify\<close> and
  \<^verbatim>\<open>solve-eqs\<close> in sequence.
\<close>

definition cell5_g :: goal where
  "cell5_g =
     [Gt (Var ''x'') (Val 0), Gt (Var ''y'') (Val 0), Eq (Var ''x'') (Add (Var ''y'') (Val 2))]"



subsection \<open>Cell 13: a bit-vector solver\<close>

text \<open>
  \<^verbatim>\<open>solve_using(bv_solver, x | y == 13, x > y)\<close> over 16-bit vectors; in Python \<^verbatim>\<open>|\<close>
  binds more tightly than \<^verbatim>\<open>==\<close>. The model is the one the solver printed.
\<close>

definition cell13_constraints :: "bvform list" where
  "cell13_constraints =
     [BEq (BOr (BVar ''x'') (BVar ''y'')) (BVal 13), BGt (BVar ''x'') (BVar ''y'')]"


subsection \<open>Cell 15: a configured bit-vector solver\<close>

text \<open>
  \<^verbatim>\<open>bv_solver.add(x * 32 + y == 13, x & y < 10, y > -100)\<close>; \<^verbatim>\<open>&\<close> binds more tightly
  than \<^verbatim>\<open><\<close>. The cell prints the solver's answer and model, and then evaluates two terms
  in the model.
\<close>

definition cell15_sum :: bvexp where
  "cell15_sum = BAdd (BMul (BVar ''x'') (BVal 32)) (BVar ''y'')"

definition cell15_and :: bvexp where
  "cell15_and = BAnd (BVar ''x'') (BVar ''y'')"

definition cell15_constraints :: "bvform list" where
  "cell15_constraints =
     [BEq cell15_sum (BVal 13), BLt cell15_and (BVal 10), BGt (BVar ''y'') (BVal (- 100))]"



subsection \<open>Cell 19: integer arithmetic by bit-blasting\<close>

text \<open>
  The bounded instance of the first \<^verbatim>\<open>solve_using\<close>, the model it printed, and the
  instance of the second call, made after \<^verbatim>\<open>s.reset()\<close>.
\<close>

definition cell19_equation :: form where
  "cell19_equation =
     Eq (Add (Mul (Val 3) (Var ''y'')) (Mul (Val 2) (Var ''x''))) (Var ''z'')"

definition cell19_bounded :: goal where
  "cell19_bounded =
     [Gt (Var ''x'') (Val 0), Lt (Var ''x'') (Val 10),
      Gt (Var ''y'') (Val 0), Lt (Var ''y'') (Val 10),
      Gt (Var ''z'') (Val 0), Lt (Var ''z'') (Val 10),
      cell19_equation]"

definition cell19_unbounded :: goal where
  "cell19_unbounded = [cell19_equation]"


subsection \<open>Cell 21: model conversion\<close>

text \<open>
  \<^verbatim>\<open>g.add(x > 10, y == x + 3, z > y)\<close> over \<^verbatim>\<open>Ints('x y z')\<close>; the result \<^verbatim>\<open>r\<close> of
  applying \<^verbatim>\<open>Then('simplify', 'normalize-bounds', 'solve-eqs')\<close>; the model of the
  subgoal \<^verbatim>\<open>r[0]\<close> that \<^verbatim>\<open>s.model()\<close> printed; and what
  \<^verbatim>\<open>r[0].convert_model(s.model())\<close> printed.
\<close>

definition cell21_g :: goal where
  "cell21_g =
     [Gt (Var ''x'') (Val 10), Eq (Var ''y'') (Add (Var ''x'') (Val 3)),
      Gt (Var ''z'') (Var ''y'')]"






subsection \<open>Cell 23: a probe and \<^verbatim>\<open>FailIf\<close>\<close>

definition cell23_g1 :: goal where
  "cell23_g1 = [Gt (Add (Add (Var ''x'') (Var ''y'')) (Var ''z'')) (Val 0)]"

definition cell23_g2 :: goal where
  "cell23_g2 = [Gt (Add (Var ''x'') (Var ''y'')) (Val 0)]"

definition cell23_p :: probe where
  "cell23_p = Probe_num_consts"

definition cell23_t :: z3_tactic where
  "cell23_t = FailIf (probe_gt cell23_p 2)"

text \<open>
  The \<^verbatim>\<open>try\<close> statement of the cell: the tactic is applied and its result dropped; if the
  application raises \<^verbatim>\<open>Z3Exception\<close>, the handler prints one line.
\<close>

definition try_apply :: "z3_tactic \<Rightarrow> goal \<Rightarrow> string list" where
  "try_apply t g = (case t g of Inl Z3Exception \<Rightarrow> [''tactic failed''] | Inr r \<Rightarrow> [])"

text \<open>
  The whole cell: what it prints, and the exception it ends with, if any. The last
  statement, \<^verbatim>\<open>print(t(g))\<close>, stands outside the \<^verbatim>\<open>try\<close>: an exception there is not
  caught.
\<close>

definition run_cell23 :: "string list \<times> z3_error option" where
  "run_cell23 =
     (let out = [spaced [''num-consts:'', show_float (cell23_p cell23_g1)]]
                @ try_apply cell23_t cell23_g1
                @ [''trying again...'']
      in case cell23_t cell23_g2 of
           Inl e \<Rightarrow> (out, Some e)
         | Inr r \<Rightarrow> (out @ [show_result r], None))"

subsection \<open>Cell 25: the conditional tactical\<close>


definition cell25_g1 :: goal where
  "cell25_g1 = [Ge (Sub (Pow (Var ''x'') 2) (Pow (Var ''y'') 2)) (Val 0)]"

definition cell25_g2 :: goal where
  "cell25_g2 =
     [Ge (Add (Add (Add (Var ''x'') (Var ''x'')) (Var ''y'')) (Var ''z'')) (Val 0),
      Ge (Sub (Pow (Var ''x'') 2) (Pow (Var ''y'') 2)) (Val 0)]"










section \<open>The terms are the notebook's text\<close>

text \<open>
  Each goal and constraint list defined above, written in the notation of the cells, is
  the line of the cell that builds it; each recorded result and model, written as the
  library prints it, is the line of the recorded output. Lines are counted from 0.
\<close>

lemmas show_defs =
  show_result_def show_goal_def show_list_def show_int_def paren_def digit_def show_model_def
  show_bvmodel_def show_bv_def show_float_def op_text_def call_text_def

lemma cell5_g_source:
  "source cell5 ! 2 = call_text ''g.add'' (map (show_form Source) cell5_g)"
  by (simp add: cell5_def cell5_g_def show_defs)


lemma cell13_constraints_source:
  "source cell13 ! 6 =
     call_text ''solve_using'' (''bv_solver'' # map (show_bvform Source) cell13_constraints)"
  by (simp add: cell13_def cell13_constraints_def show_defs)


lemma cell15_constraints_source:
  "source cell15 ! 6 =
     call_text ''bv_solver.add'' (map (show_bvform Source) cell15_constraints)"
  by (simp add: cell15_def cell15_constraints_def cell15_sum_def cell15_and_def show_defs)


lemma cell19_bounded_source:
  "spaced (map (dropWhile (\<lambda>c. c = CHR '' '')) (take 5 (drop 4 (source cell19)))) =
     call_text ''solve_using'' (''s'' # map (show_form Source) cell19_bounded)"
  by (simp add: cell19_def cell19_bounded_def cell19_equation_def show_defs)

lemma cell19_unbounded_source:
  "source cell19 ! 11 =
     call_text ''solve_using'' (''s'' # map (show_form Source) cell19_unbounded)"
  by (simp add: cell19_def cell19_unbounded_def cell19_equation_def show_defs)


lemma cell21_g_source:
  "source cell21 ! 6 = call_text ''g.add'' (map (show_form Source) cell21_g)"
  by (simp add: cell21_def cell21_g_def show_defs)


lemma cell23_g_source:
  "source cell23 ! 2 = call_text ''g.add'' (map (show_form Source) cell23_g1)"
  "source cell23 ! 15 = call_text ''g.add'' (map (show_form Source) cell23_g2)"
  by (simp_all add: cell23_def cell23_g1_def cell23_g2_def show_defs)

lemma cell25_g_source:
  "source cell25 ! 2 = call_text ''g.add'' (map (show_form Source) cell25_g1)"
  "source cell25 ! 10 = call_text ''g.add'' (map (show_form Source) cell25_g2)"
  by (simp_all add: cell25_def cell25_g1_def cell25_g2_def show_defs)


section \<open>The cells under the scans\<close>

lemmas cell_defs =
  cell3_def cell5_def cell7_def cell9_def cell11_def cell13_def cell15_def cell17_def
  cell19_def cell21_def cell23_def cell25_def cell26_def

lemma notebook_calls:
  "concat (map cell_calls notebook) =
     [''Reals'', ''Goal'', ''add'', ''print'', ''Tactic'', ''Tactic'', ''Then'', ''print'', ''t'',
      ''Reals'', ''Goal'', ''add'', ''Or'', ''Tactic'', ''t'', ''print'',
      ''Reals'', ''Goal'', ''add'', ''Or'', ''Or'', ''Or'', ''Repeat'', ''OrElse'', ''Tactic'',
      ''Tactic'', ''print'', ''split_all'', ''Repeat'', ''OrElse'', ''Tactic'', ''Tactic'',
      ''print'', ''split_at_most_2'', ''Then'', ''Repeat'', ''OrElse'', ''Tactic'', ''Tactic'',
      ''Tactic'', ''print'', ''split_solve'',
      ''Reals'', ''Goal'', ''add'', ''Or'', ''Or'', ''Or'', ''Repeat'', ''OrElse'', ''Tactic'',
      ''Tactic'', ''split_all'', ''print'',
      ''Then'', ''solver'', ''BitVecs'', ''solve_using'',
      ''Then'', ''With'', ''solver'', ''BitVecs'', ''add'', ''print'', ''check'', ''model'',
      ''print'', ''print'', ''evaluate'', ''print'', ''evaluate'',
      ''Ints'', ''Tactic'', ''solver'', ''add'', ''print'', ''check'', ''print'', ''model'',
      ''Then'', ''With'', ''solver'', ''Ints'', ''solve_using'', ''reset'', ''solve_using'',
      ''Then'', ''Ints'', ''Goal'', ''add'', ''t'', ''print'', ''Solver'', ''add'', ''print'',
      ''check'', ''print'', ''model'', ''print'', ''convert_model'', ''model'',
      ''Reals'', ''Goal'', ''add'', ''Probe'', ''print'', ''p'', ''FailIf'', ''t'', ''print'',
      ''print'', ''Goal'', ''add'', ''print'', ''t'',
      ''Reals'', ''Goal'', ''add'', ''Probe'', ''If'', ''print'', ''t'', ''Goal'', ''add'',
      ''print'', ''t'']"
  by (simp add: notebook_def cell_calls_def is_ident_char_def cell_defs)

lemma invoked_somewhere:
  "list_ex (invokes f) cells = (f \<in> set (concat (map cell_calls cells)))"
  by (auto simp add: list_ex_iff invokes_def)

lemma notebook_bindings:
  "filter (\<lambda>(n, f). n \<in> set applied_names) (concat (map cell_bindings notebook)) =
     [(''t'', ''Then''), (''t'', ''Tactic''), (''split_all'', ''Repeat''),
      (''split_at_most_2'', ''Repeat''), (''split_solve'', ''Then''),
      (''split_all'', ''Repeat''), (''t'', ''Then''), (''p'', ''Probe''),
      (''t'', ''FailIf''), (''p'', ''Probe''), (''t'', ''If'')]"
  by (simp add: notebook_def cell_bindings_def binding_def List.map_filter_def
      applied_names_def is_ident_char_def cell_defs)

lemma notebook_imports:
  "concat (map imports_of notebook) = [''from z3 import *'']"
  by (simp add: notebook_def imports_of_def first_word_def is_ident_char_def cell_defs)

lemma notebook_words_known:
  "list_all known_word (concat (map cell_words notebook))"
  by (simp add: notebook_def cell_words_def is_ident_char_def flush_def cell_defs
      known_word_def is_numeral_def vocabulary_def python_words_def library_names_def
      variable_names_def)

lemma notebook_defines_nothing:
  "\<not> list_ex defines_own notebook"
  by (simp add: notebook_def defines_own_def defining_words_def cell_words_def
      is_ident_char_def flush_def cell_defs)

section \<open>Cells 23 and 25 under the model of the tacticals\<close>

lemma num_consts_cell23:
  "num_consts cell23_g1 = 3" "num_consts cell23_g2 = 2"
  by (simp_all add: num_consts_def consts_goal_def cell23_g1_def cell23_g2_def)


lemma cell23_cond:
  "probe_gt cell23_p 2 g = (2 < num_consts g)"
  by (simp add: probe_gt_def cell23_p_def Probe_num_consts_def)

lemma cell23_t_cases:
  "cell23_t g = (if 2 < num_consts g then Inl Z3Exception else Inr [g])"
  by (simp add: cell23_t_def FailIf_def cell23_cond)

lemma run_cell23_stdout:
  "run_cell23 = (stdout cell23, None)"
  by (simp add: run_cell23_def cell23_t_cases try_apply_def cell23_p_def Probe_num_consts_def
      num_consts_def consts_goal_def cell23_g1_def cell23_g2_def cell23_def show_defs)





section \<open>Error handling: \<^verbatim>\<open>FailIf\<close> in cell 23\<close>

text \<open>
  Claim C1. The tactic \<^verbatim>\<open>t = FailIf(p > 2)\<close> with \<^verbatim>\<open>p = Probe('num-consts')\<close>, applied to
  any goal \<open>g\<close>, raises \<^verbatim>\<open>Z3Exception\<close> exactly when the goal does not pass the tactic's
  probe-based test, which is when the probed condition \<^verbatim>\<open>p > 2\<close> evaluates to true on
  \<open>g\<close>, that is, when \<open>g\<close> has more than two constants; and the \<^verbatim>\<open>try\<close> statement of the
  cell prints \<^verbatim>\<open>tactic failed\<close> on exactly those goals. In the notebook's example the goal
  \<^verbatim>\<open>x + y + z > 0\<close> has three constants, the application raises the exception, the handler
  prints \<^verbatim>\<open>tactic failed\<close>, and the cell as a whole prints what the notebook recorded.
\<close>

theorem FailIf_raises_exactly_when_probe_exceeds:
  "(cell23_t g = Inl Z3Exception) = (2 < num_consts g)
   \<and> probe_gt cell23_p 2 g = (2 < num_consts g)
   \<and> (try_apply cell23_t g = [''tactic failed'']) = (2 < num_consts g)
   \<and> num_consts cell23_g1 = 3
   \<and> cell23_t cell23_g1 = Inl Z3Exception
   \<and> try_apply cell23_t cell23_g1 = [''tactic failed'']
   \<and> run_cell23 = (stdout cell23, None)
   \<and> stdout cell23 ! 1 = ''tactic failed''"
proof -
  have raises: "(cell23_t g = Inl Z3Exception) = (2 < num_consts g)"
    by (simp add: cell23_t_cases)
  have prints: "(try_apply cell23_t g = [''tactic failed'']) = (2 < num_consts g)"
    by (simp add: try_apply_def cell23_t_cases)
  have example: "cell23_t cell23_g1 = Inl Z3Exception"
    by (simp add: cell23_t_cases num_consts_cell23)
  have handler: "try_apply cell23_t cell23_g1 = [''tactic failed'']"
    by (simp add: try_apply_def example)
  have recorded: "stdout cell23 ! 1 = ''tactic failed''"
    by (simp add: cell23_def)
  from raises prints example handler recorded show ?thesis
    by (simp add: cell23_cond num_consts_cell23 run_cell23_stdout)
qed

text \<open>
  Claim C9. When \<^verbatim>\<open>t = FailIf(Probe('num-consts') > 2)\<close> is applied to a goal on which the
  condition \<^verbatim>\<open>p > 2\<close> does not hold, no exception is raised and the result is exactly one
  subgoal, the input goal unchanged. The goal \<^verbatim>\<open>x + y > 0\<close> of the cell is such a goal: its
  probe value is 2, the result is that goal alone, and it is printed as \<^verbatim>\<open>[[x + y > 0]]\<close>,
  the last line of the recorded output.
\<close>

theorem FailIf_returns_goal_unchanged:
  "(\<not> probe_gt cell23_p 2 g \<longrightarrow> cell23_t g = Inr [g])
   \<and> num_consts cell23_g2 = 2
   \<and> \<not> probe_gt cell23_p 2 cell23_g2
   \<and> cell23_t cell23_g2 = Inr [cell23_g2]
   \<and> show_result [cell23_g2] = ''[[x + y > 0]]''
   \<and> stdout cell23 ! 3 = show_result [cell23_g2]
   \<and> snd run_cell23 = None"
proof -
  have general: "\<not> probe_gt cell23_p 2 g \<longrightarrow> cell23_t g = Inr [g]"
    by (simp add: cell23_t_cases cell23_cond)
  have example: "cell23_t cell23_g2 = Inr [cell23_g2]"
    by (simp add: cell23_t_cases num_consts_cell23)
  have printed: "show_result [cell23_g2] = ''[[x + y > 0]]''"
    by (simp add: cell23_g2_def show_defs)
  have recorded: "stdout cell23 ! 3 = ''[[x + y > 0]]''"
    by (simp add: cell23_def)
  from general example printed recorded show ?thesis
    by (simp add: cell23_cond num_consts_cell23 run_cell23_stdout)
qed

theorem FailIf_returns_goal_unchanged_witness:
  "\<not> probe_gt cell23_p 2 cell23_g2 \<and> cell23_t cell23_g2 = Inr [cell23_g2]"
proof -
  have h: "\<not> probe_gt cell23_p 2 cell23_g2"
    by (simp add: cell23_cond num_consts_cell23)
  from FailIf_returns_goal_unchanged [of cell23_g2] h show ?thesis
    by blast
qed

section \<open>Conditional tactic selection: \<^verbatim>\<open>If\<close> in cell 25\<close>




section \<open>Recorded solver answers\<close>




section \<open>Model conversion: cell 21\<close>


section \<open>A first tactic application: cell 5\<close>



section \<open>What the code cells invoke\<close>

text \<open>
  Claim C4, as stated: for every operation in the list \<^verbatim>\<open>Then\<close>, \<^verbatim>\<open>OrElse\<close>,
  \<^verbatim>\<open>Repeat\<close>, \<^verbatim>\<open>TryFor\<close>, \<^verbatim>\<open>With\<close>, \<^verbatim>\<open>FailIf\<close>, \<^verbatim>\<open>If\<close>, \<^verbatim>\<open>When\<close>,
  \<^verbatim>\<open>Probe\<close> and \<^verbatim>\<open>solver()\<close>, at least one code cell of the notebook invokes that
  operation. This fails: \<^verbatim>\<open>TryFor\<close> and \<^verbatim>\<open>When\<close> are described in the prose of the
  notebook only, and no code cell calls either.
\<close>

theorem not_every_shown_operation_is_invoked:
  "\<not> list_all (\<lambda>f. list_ex (invokes f) notebook) shown_operations"
  by (simp add: invoked_somewhere notebook_calls shown_operations_def)

text \<open>
  Claim C4, amended: for every operation in the list \<^verbatim>\<open>Then\<close>, \<^verbatim>\<open>OrElse\<close>,
  \<^verbatim>\<open>Repeat\<close>, \<^verbatim>\<open>With\<close>, \<^verbatim>\<open>FailIf\<close>, \<^verbatim>\<open>If\<close>, \<^verbatim>\<open>Probe\<close> and \<^verbatim>\<open>solver()\<close>, at
  least one code cell of the notebook invokes that operation, with arguments written out in
  the cell; no code cell invokes \<^verbatim>\<open>TryFor\<close> or \<^verbatim>\<open>When\<close>. These eight operations together
  with \<^verbatim>\<open>TryFor\<close> and \<^verbatim>\<open>When\<close> are the ten of the original list.
\<close>

theorem invoked_operations_are_invoked:
  "list_all (\<lambda>f. list_ex (invokes f) notebook) invoked_operations
   \<and> \<not> list_ex (invokes ''TryFor'') notebook
   \<and> \<not> list_ex (invokes ''When'') notebook
   \<and> set shown_operations = set invoked_operations \<union> {''TryFor'', ''When''}"
proof -
  have invoked: "list_all (\<lambda>f. list_ex (invokes f) notebook) invoked_operations"
    by (simp add: invoked_somewhere notebook_calls invoked_operations_def)
  have absent:
    "\<not> list_ex (invokes ''TryFor'') notebook" "\<not> list_ex (invokes ''When'') notebook"
    by (simp_all add: invoked_somewhere notebook_calls)
  have lists: "set shown_operations = set invoked_operations \<union> {''TryFor'', ''When''}"
    by (auto simp add: shown_operations_def invoked_operations_def)
  from invoked absent lists show ?thesis
    by simp
qed

section \<open>What the code cells do not do\<close>

text \<open>
  Claim C8. The code cells define no classes or functions of their own, write no files and
  open no network or command-line interface; each cell only constructs expressions, goals,
  tactics, probes and solvers of the solver library, rebinds local names to them, and
  prints. As a property of the cells' code: no cell uses \<^verbatim>\<open>def\<close>, \<^verbatim>\<open>class\<close> or
  \<^verbatim>\<open>lambda\<close>; the only import in the notebook is \<^verbatim>\<open>from z3 import *\<close>; every word of
  every cell outside comments and string literals is a numeral, a word of the Python
  statements used, a name of the solver library, or a variable of the notebook; everything
  a cell calls is an operation of the solver library, \<^verbatim>\<open>print\<close>, or a local name; and each
  local name that is called is bound, wherever the notebook binds it, to the result of a
  library operation that makes a tactic or a probe. So the cells hold no state of the
  repository's own: all they leave behind is their printed output.
\<close>

theorem cells_only_call_the_library_and_print:
  "\<not> list_ex defines_own notebook
   \<and> concat (map imports_of notebook) = [''from z3 import *'']
   \<and> list_all known_word (concat (map cell_words notebook))
   \<and> list_all (\<lambda>f. f \<in> set allowed_calls) (concat (map cell_calls notebook))
   \<and> list_all (\<lambda>(n, f). f \<in> set tactic_makers)
        (filter (\<lambda>(n, f). n \<in> set applied_names) (concat (map cell_bindings notebook)))
   \<and> list_all (\<lambda>n. n \<in> fst ` set (concat (map cell_bindings notebook))) applied_names
   \<and> set tactic_makers \<subseteq> set library_names"
proof -
  have calls: "list_all (\<lambda>f. f \<in> set allowed_calls) (concat (map cell_calls notebook))"
    by (simp add: notebook_calls allowed_calls_def library_names_def applied_names_def)
  have made:
    "list_all (\<lambda>(n, f). f \<in> set tactic_makers)
       (filter (\<lambda>(n, f). n \<in> set applied_names) (concat (map cell_bindings notebook)))"
    by (simp add: notebook_bindings tactic_makers_def)
  have "fst ` set (filter (\<lambda>(n, f). n \<in> set applied_names)
          (concat (map cell_bindings notebook)))
        \<subseteq> fst ` set (concat (map cell_bindings notebook))"
    by auto
  moreover have
    "set applied_names \<subseteq> fst ` set (filter (\<lambda>(n, f). n \<in> set applied_names)
       (concat (map cell_bindings notebook)))"
    by (subst notebook_bindings) (simp add: applied_names_def)
  ultimately have bound:
    "list_all (\<lambda>n. n \<in> fst ` set (concat (map cell_bindings notebook))) applied_names"
    unfolding list_all_iff by blast
  have makers: "set tactic_makers \<subseteq> set library_names"
    by (simp add: tactic_makers_def library_names_def)
  from calls made bound makers show ?thesis
    by (simp add: notebook_defines_nothing notebook_imports notebook_words_known)
qed


end
